theory Spec2Isabelle
  imports Complex_Main "HOL-Library.Word"
begin

section \<open>Python values\<close>

text \<open>
  The webhook server \<^verbatim>\<open>src/webhook/hotline_server.py\<close> handles values that come out of
  \<^verbatim>\<open>request.json\<close> and \<^verbatim>\<open>response.json()\<close>: any JSON value, whatever the
  annotation of the variable holding it says. A parsed object is an association list
  read with \<open>map_of\<close> (a parsed \<^verbatim>\<open>dict\<close> has one value per key). A \<^verbatim>\<open>str\<close> is a
  \<open>string\<close>; bytes are \<open>8 word\<close>s.
\<close>

datatype json =
    JNull
  | JBool bool
  | JInt int
  | JFloat rat
  | JStr string
  | JArr "json list"
  | JObj "(string \<times> json) list"

text \<open>The exceptions the handlers can meet outside a \<^verbatim>\<open>try\<close> block.\<close>

datatype py_error = AttributeError | IndexError | KeyError | TypeError | IsADirectoryError

definition and_then :: "py_error + 'a \<Rightarrow> ('a \<Rightarrow> py_error + 'b) \<Rightarrow> py_error + 'b" where
  "and_then r f = (case r of Inl e \<Rightarrow> Inl e | Inr v \<Rightarrow> f v)"

text \<open>Truth value of a value, as \<^verbatim>\<open>if x:\<close>, \<^verbatim>\<open>not x\<close> and \<^verbatim>\<open>x or y\<close> test it.\<close>

fun truthy :: "json \<Rightarrow> bool" where
  "truthy JNull = False"
| "truthy (JBool b) = b"
| "truthy (JInt i) = (i \<noteq> 0)"
| "truthy (JFloat r) = (r \<noteq> 0)"
| "truthy (JStr s) = (s \<noteq> [])"
| "truthy (JArr xs) = (xs \<noteq> [])"
| "truthy (JObj kvs) = (kvs \<noteq> [])"

text \<open>\<^verbatim>\<open>x.get(key, default)\<close>: only a \<^verbatim>\<open>dict\<close> has the method.\<close>

fun dict_get :: "json \<Rightarrow> string \<Rightarrow> json \<Rightarrow> py_error + json" where
  "dict_get (JObj kvs) k d = Inr (case map_of kvs k of None \<Rightarrow> d | Some v \<Rightarrow> v)"
| "dict_get _ k d = Inl AttributeError"

text \<open>
  \<^verbatim>\<open>x[0]\<close>: the first element of a list or string, \<^verbatim>\<open>IndexError\<close> when it is empty;
  a parsed object has string keys only, so the key \<^verbatim>\<open>0\<close> is missing; the other values
  are not subscriptable.
\<close>

fun index0 :: "json \<Rightarrow> py_error + json" where
  "index0 (JArr []) = Inl IndexError"
| "index0 (JArr (x # xs)) = Inr x"
| "index0 (JStr []) = Inl IndexError"
| "index0 (JStr (c # cs)) = Inr (JStr [c])"
| "index0 (JObj kvs) = Inl KeyError"
| "index0 _ = Inl TypeError"

text \<open>
  \<^verbatim>\<open>str.lower()\<close> on the letters A to Z; the other characters stay (the closing phrases
  are ASCII).
\<close>

definition lower_char :: "char \<Rightarrow> char" where
  "lower_char c =
     (case map_of (zip ''ABCDEFGHIJKLMNOPQRSTUVWXYZ'' ''abcdefghijklmnopqrstuvwxyz'') c of
        None \<Rightarrow> c
      | Some d \<Rightarrow> d)"

definition lower :: "string \<Rightarrow> string" where
  "lower s = map lower_char s"

text \<open>\<^verbatim>\<open>phrase in text\<close> on strings: \<open>phrase\<close> occurs in \<open>text\<close> as a substring.\<close>

fun starts_with :: "string \<Rightarrow> string \<Rightarrow> bool" where
  "starts_with s [] = True"
| "starts_with [] (p # ps) = False"
| "starts_with (c # cs) (p # ps) = (c = p \<and> starts_with cs ps)"

fun str_in :: "string \<Rightarrow> string \<Rightarrow> bool" where
  "str_in phrase [] = (phrase = [])"
| "str_in phrase (c # cs) = (starts_with (c # cs) phrase \<or> str_in phrase cs)"

section \<open>Configuration, backends and the audio cache\<close>

text \<open>The module constants read from the environment at start.\<close>

record config =
  BASE_URL :: string
  TTS_URL :: string
  LLM_URL :: string
  LANGFLOW_URL :: string
  LANGFLOW_FLOW_ID :: string
  SYSTEM_PROMPT :: string

text \<open>
  \<^verbatim>\<open>requests.post(url, json=..., timeout=...)\<close> either raises or returns a response.
  \<open>json_body\<close> is what \<^verbatim>\<open>response.json()\<close> gives, \<open>None\<close> when it raises because the
  body is not JSON. \<^verbatim>\<open>raise_for_status()\<close> raises for the client and server error
  statuses, 400 to 599, and for no other status.
\<close>

datatype transport_error = Timeout | ConnectionError

record response =
  status_code :: nat
  content :: "8 word list"
  json_body :: "json option"

datatype http_result = Raises transport_error | Returns response

record http_request =
  http_method :: string
  url :: string
  json_payload :: json
  timeout :: nat

definition raise_for_status :: "response \<Rightarrow> bool" where
  "raise_for_status r = (400 \<le> status_code r \<and> status_code r < 600)"

text \<open>
  What the handlers take from outside: the answer of the network to each request, the
  identifiers \<^verbatim>\<open>uuid.uuid4()\<close> draws, numbered in the order drawn, and the text
  \<^verbatim>\<open>str()\<close> gives for a value that is not a \<^verbatim>\<open>str\<close>.
\<close>

record env =
  post :: "http_request \<Rightarrow> http_result"
  uuid4 :: "nat \<Rightarrow> string"
  str_of :: "json \<Rightarrow> string"

text \<open>
  The state the handlers change: the entries of \<^verbatim>\<open>AUDIO_DIR\<close> by name, the number of
  identifiers drawn, and the requests sent so far, oldest first.
\<close>

datatype entry = RegularFile "8 word list" | Directory

record world =
  audio_dir :: "string \<rightharpoonup> entry"
  uuids_drawn :: nat
  outbound :: "http_request list"

text \<open>
  \<^verbatim>\<open>AUDIO_DIR / name\<close> for a name of one path segment: the entry of that name in the
  directory. Every directory holds the two links \<^verbatim>\<open>.\<close> and \<^verbatim>\<open>..\<close>, which are
  directories. \<^verbatim>\<open>Path.exists()\<close> is true for an entry of either kind. Names are
  taken to be within the length the file system allows for one.
\<close>

definition path_entry :: "world \<Rightarrow> string \<Rightarrow> entry option" where
  "path_entry w name =
     (if name = ''.'' \<or> name = ''..'' then Some Directory else audio_dir w name)"

definition send :: "env \<Rightarrow> http_request \<Rightarrow> world \<Rightarrow> http_result \<times> world" where
  "send e req w = (post e req, w\<lparr>outbound := outbound w @ [req]\<rparr>)"

section \<open>Backend clients\<close>

text \<open>
  \<^verbatim>\<open>call_tts\<close>: every exception inside the \<^verbatim>\<open>try\<close> gives \<^verbatim>\<open>None\<close>. Writing
  the bytes to a name that is a directory raises too.
\<close>

definition tts_request :: "config \<Rightarrow> json \<Rightarrow> string \<Rightarrow> http_request" where
  "tts_request cfg text language =
     \<lparr>http_method = ''POST'',
      url = TTS_URL cfg @ ''/tts'',
      json_payload = JObj [(''text'', text), (''language'', JStr language)],
      timeout = 30\<rparr>"

definition call_tts :: "config \<Rightarrow> env \<Rightarrow> json \<Rightarrow> string \<Rightarrow> world \<Rightarrow> string option \<times> world" where
  "call_tts cfg e text language w =
     (let (res, w1) = send e (tts_request cfg text language) w
      in (case res of
            Raises err \<Rightarrow> (None, w1)
          | Returns r \<Rightarrow>
              (if raise_for_status r then (None, w1)
               else
                 (let audio_id = uuid4 e (uuids_drawn w1);
                      w2 = w1\<lparr>uuids_drawn := Suc (uuids_drawn w1)\<rparr>;
                      name = audio_id @ ''.wav''
                  in (case path_entry w2 name of
                        Some Directory \<Rightarrow> (None, w2)
                      | _ \<Rightarrow>
                          (Some (BASE_URL cfg @ ''/audio/'' @ audio_id @ ''.wav''),
                           w2\<lparr>audio_dir := (audio_dir w2)(name \<mapsto> RegularFile (content r))\<rparr>))))))"

definition langflow_error_text :: string where
  "langflow_error_text = ''I'm having trouble with my AI workflow. Please try again.''"

definition langflow_empty_text :: string where
  "langflow_empty_text = ''I couldn't process that through the workflow.''"

text \<open>The path \<^verbatim>\<open>outputs[0].get("outputs", [{}])[0].get("results", {}).get("message", {}).get("text", "")\<close>.\<close>

definition langflow_text :: "json \<Rightarrow> py_error + json" where
  "langflow_text outputs =
     and_then (index0 outputs) (\<lambda>first.
     and_then (dict_get first ''outputs'' (JArr [JObj []])) (\<lambda>inner.
     and_then (index0 inner) (\<lambda>inner0.
     and_then (dict_get inner0 ''results'' (JObj [])) (\<lambda>results.
     and_then (dict_get results ''message'' (JObj [])) (\<lambda>message.
     dict_get message ''text'' (JStr []))))))"

definition langflow_reply :: "http_result \<Rightarrow> json" where
  "langflow_reply res =
     (case res of
        Raises err \<Rightarrow> JStr langflow_error_text
      | Returns r \<Rightarrow>
          (if raise_for_status r then JStr langflow_error_text
           else
             (case json_body r of
                None \<Rightarrow> JStr langflow_error_text
              | Some result \<Rightarrow>
                  (case dict_get result ''outputs'' (JArr [JObj []]) of
                     Inl err \<Rightarrow> JStr langflow_error_text
                   | Inr outputs \<Rightarrow>
                       (if truthy outputs then
                          (case langflow_text outputs of
                             Inl err \<Rightarrow> JStr langflow_error_text
                           | Inr v \<Rightarrow> v)
                        else JStr langflow_empty_text)))))"

definition langflow_request :: "config \<Rightarrow> string \<Rightarrow> http_request" where
  "langflow_request cfg message =
     \<lparr>http_method = ''POST'',
      url = LANGFLOW_URL cfg @ ''/api/v1/run/'' @ LANGFLOW_FLOW_ID cfg,
      json_payload = JObj [(''input_value'', JStr message),
                           (''output_type'', JStr ''chat''),
                           (''input_type'', JStr ''chat'')],
      timeout = 60\<rparr>"

definition call_langflow :: "config \<Rightarrow> env \<Rightarrow> string \<Rightarrow> world \<Rightarrow> json \<times> world" where
  "call_langflow cfg e message w =
     (let (res, w1) = send e (langflow_request cfg message) w
      in (langflow_reply res, w1))"

definition llm_error_text :: string where
  "llm_error_text = ''I'm sorry, I had trouble understanding. Could you repeat that?''"

definition llm_prompt :: "config \<Rightarrow> string \<Rightarrow> string" where
  "llm_prompt cfg message =
     SYSTEM_PROMPT cfg @ ''\<newline>\<newline>User: '' @ message @ ''\<newline>Assistant:''"

definition llm_request :: "config \<Rightarrow> string \<Rightarrow> http_request" where
  "llm_request cfg message =
     \<lparr>http_method = ''POST'',
      url = LLM_URL cfg @ ''/api/generate'',
      json_payload = JObj [(''model'', JStr ''llama3.1:8b''),
                           (''prompt'', JStr (llm_prompt cfg message)),
                           (''stream'', JBool False),
                           (''options'', JObj [(''temperature'', JFloat (7 / 10)),
                                               (''num_predict'', JInt 150)])],
      timeout = 60\<rparr>"

definition llm_missing_text :: string where
  "llm_missing_text = ''I couldn't process that.''"

definition llm_reply :: "http_result \<Rightarrow> json" where
  "llm_reply res =
     (case res of
        Raises err \<Rightarrow> JStr llm_error_text
      | Returns r \<Rightarrow>
          (if raise_for_status r then JStr llm_error_text
           else
             (case json_body r of
                None \<Rightarrow> JStr llm_error_text
              | Some body \<Rightarrow>
                  (case dict_get body ''response'' (JStr llm_missing_text) of
                     Inl err \<Rightarrow> JStr llm_error_text
                   | Inr v \<Rightarrow> v))))"

definition call_llm :: "config \<Rightarrow> env \<Rightarrow> string \<Rightarrow> world \<Rightarrow> json \<times> world" where
  "call_llm cfg e message w =
     (if LANGFLOW_FLOW_ID cfg \<noteq> [] then call_langflow cfg e message w
      else
        (let (res, w1) = send e (llm_request cfg message) w
         in (llm_reply res, w1)))"

text \<open>\<^verbatim>\<open>if audio_url: ... else: ...\<close> on the result of \<^verbatim>\<open>call_tts\<close>.\<close>

definition if_url :: "string option \<Rightarrow> (string \<Rightarrow> 'a) \<Rightarrow> 'a \<Rightarrow> 'a" where
  "if_url audio_url with_url without =
     (case audio_url of
        None \<Rightarrow> without
      | Some u \<Rightarrow> (if u = [] then without else with_url u))"

section \<open>Twilio endpoints\<close>

text \<open>
  The handlers write TwiML through f-strings, so a document is the string itself, with
  the line breaks and indentation of the template. An interpolated value is written as
  \<^verbatim>\<open>str()\<close> gives it and nothing is escaped: for a \<^verbatim>\<open>str\<close> these are its own
  characters, for another value (\<^verbatim>\<open>None\<close>, a number, a list) the text \<open>str_of\<close>
  of the environment.
\<close>

definition fstring :: "env \<Rightarrow> json \<Rightarrow> string" where
  "fstring e v = (case v of JStr s \<Rightarrow> s | _ \<Rightarrow> str_of e v)"

definition xml_declaration :: string where
  \<open>xml_declaration = ''<?xml version="1.0" encoding="UTF-8"?>''\<close>

text \<open>
  Every template is the declaration, \<^verbatim>\<open><Response>\<close>, the verbs one per line behind four
  spaces, and \<^verbatim>\<open></Response>\<close> with no line break after it.
\<close>

definition twiml :: "string list \<Rightarrow> string" where
  "twiml verbs =
     xml_declaration @ ''\<newline><Response>\<newline>''
     @ concat (map (\<lambda>verb. ''    '' @ verb @ ''\<newline>'') verbs)
     @ ''</Response>''"

definition Play :: "string \<Rightarrow> string" where
  "Play u = ''<Play>'' @ u @ ''</Play>''"

definition Say :: "string \<Rightarrow> string" where
  "Say t = ''<Say>'' @ t @ ''</Say>''"

definition Say_alice :: "string \<Rightarrow> string" where
  \<open>Say_alice t = ''<Say voice="alice">'' @ t @ ''</Say>''\<close>

definition Gather_open :: "config \<Rightarrow> string" where
  \<open>Gather_open cfg =
     ''<Gather input="speech" action="'' @ BASE_URL cfg @ ''/gather" method="POST"\<newline>''
     @ ''            speechTimeout="auto" language="en-US"''\<close>

definition Gather :: "config \<Rightarrow> string" where
  "Gather cfg = Gather_open cfg @ ''/>''"


definition Hangup :: string where
  "Hangup = ''<Hangup/>''"

text \<open>\<^verbatim>\<open>request.form.get(key, default)\<close>.\<close>

definition form_get :: "(string \<times> string) list \<Rightarrow> string \<Rightarrow> string \<Rightarrow> string" where
  "form_get form k d = (case map_of form k of None \<Rightarrow> d | Some v \<Rightarrow> v)"



definition reprompt_text :: string where
  "reprompt_text = ''I didn't catch that. Could you repeat?''"

definition twilio_goodbye_phrases :: "string list" where
  "twilio_goodbye_phrases = [''goodbye'', ''bye'', ''hang up'', ''end call'', ''that's all'']"

definition twilio_farewell :: string where
  "twilio_farewell = ''Thank you for calling! Have a great day. Goodbye!''"

definition twilio_gather :: "config \<Rightarrow> env \<Rightarrow> (string \<times> string) list \<Rightarrow> world \<Rightarrow> string \<times> world" where
  "twilio_gather cfg e form w =
     (let speech_result = form_get form ''SpeechResult'' []
      in if speech_result = [] then
           (twiml [Say_alice reprompt_text,
                   Gather cfg,
                   Say ''Still nothing. Goodbye!'',
                   Hangup],
            w)
         else if list_ex (\<lambda>phrase. str_in phrase (lower speech_result)) twilio_goodbye_phrases then
           (let (audio_url, w1) = call_tts cfg e (JStr twilio_farewell) ''en'' w
            in (if_url audio_url
                  (\<lambda>u. twiml [Play u, Hangup])
                  (twiml [Say_alice twilio_farewell, Hangup]),
                w1))
         else
           (let (ai_response, w1) = call_llm cfg e speech_result w;
                (audio_url, w2) = call_tts cfg e ai_response ''en'' w1
            in (if_url audio_url
                  (\<lambda>u. twiml [Play u,
                              Gather cfg,
                              Say ''Are you still there?'',
                              Hangup])
                  (twiml [Say_alice (fstring e ai_response),
                          Gather cfg,
                          Say ''Are you still there?'',
                          Hangup]),
                w2)))"

section \<open>Jambonz endpoints\<close>

text \<open>
  The Jambonz handlers answer with a JSON array of verbs. Their argument is the value of
  \<^verbatim>\<open>request.json\<close>, the parsed body of a JSON request.
\<close>

definition verb_play :: "string \<Rightarrow> json" where
  "verb_play u = JObj [(''verb'', JStr ''play''), (''url'', JStr u)]"

definition verb_say :: "json \<Rightarrow> json" where
  "verb_say t = JObj [(''verb'', JStr ''say''), (''text'', t)]"

definition verb_gather :: "config \<Rightarrow> json" where
  "verb_gather cfg =
     JObj [(''verb'', JStr ''gather''),
           (''input'', JArr [JStr ''speech'']),
           (''actionHook'', JStr (BASE_URL cfg @ ''/jambonz-gather'')),
           (''timeout'', JInt 10)]"

definition verb_hangup :: json where
  "verb_hangup = JObj [(''verb'', JStr ''hangup'')]"




definition jambonz_goodbye_phrases :: "string list" where
  "jambonz_goodbye_phrases = [''goodbye'', ''bye'', ''hang up'', ''end call'']"

definition jambonz_farewell :: string where
  "jambonz_farewell = ''Thank you for calling! Goodbye!''"

text \<open>
  The part of \<^verbatim>\<open>jambonz_gather\<close> after the empty check, for a transcript that is a
  \<^verbatim>\<open>str\<close>.
\<close>

definition jambonz_turn :: "config \<Rightarrow> env \<Rightarrow> string \<Rightarrow> world \<Rightarrow> json \<times> world" where
  "jambonz_turn cfg e speech_text w =
     (if list_ex (\<lambda>phrase. str_in phrase (lower speech_text)) jambonz_goodbye_phrases then
        (let (audio_url, w1) = call_tts cfg e (JStr jambonz_farewell) ''en'' w
         in (if_url audio_url
               (\<lambda>u. JArr [verb_play u, verb_hangup])
               (JArr [verb_say (JStr jambonz_farewell), verb_hangup]),
             w1))
      else
        (let (ai_response, w1) = call_llm cfg e speech_text w;
             (audio_url, w2) = call_tts cfg e ai_response ''en'' w1
         in (JArr [if_url audio_url verb_play (verb_say ai_response),
                   verb_gather cfg,
                   verb_hangup],
             w2)))"

text \<open>
  The first three statements of \<^verbatim>\<open>jambonz_gather\<close>:
  \<^verbatim>\<open>payload = request.json or {}\<close>, \<^verbatim>\<open>speech = payload.get("speech", {})\<close> and
  \<^verbatim>\<open>speech_text = speech.get("alternatives", [{}])[0].get("transcript", "")\<close>.
\<close>

definition jambonz_speech_text :: "json \<Rightarrow> py_error + json" where
  "jambonz_speech_text body =
     (let payload = (if truthy body then body else JObj [])
      in and_then (dict_get payload ''speech'' (JObj [])) (\<lambda>speech.
         and_then (dict_get speech ''alternatives'' (JArr [JObj []])) (\<lambda>alternatives.
         and_then (index0 alternatives) (\<lambda>first.
         dict_get first ''transcript'' (JStr [])))))"

text \<open>A truthy transcript that is not a \<^verbatim>\<open>str\<close> has no \<^verbatim>\<open>lower\<close> method.\<close>

definition jambonz_gather :: "config \<Rightarrow> env \<Rightarrow> json \<Rightarrow> world \<Rightarrow> py_error + json \<times> world" where
  "jambonz_gather cfg e body w =
     and_then (jambonz_speech_text body) (\<lambda>speech_text.
       if \<not> truthy speech_text then
         Inr (JArr [verb_say (JStr reprompt_text), verb_gather cfg, verb_hangup], w)
       else
         (case speech_text of
            JStr s \<Rightarrow> Inr (jambonz_turn cfg e s w)
          | _ \<Rightarrow> Inl AttributeError))"

section \<open>Audio serving\<close>

text \<open>
  The rule \<^verbatim>\<open>/audio/<filename>\<close>: the default converter takes one path segment, at least
  one character and no slash.
\<close>

definition audio_route :: "string \<Rightarrow> string option" where
  "audio_route path =
     (if starts_with path ''/audio/'' then
        (let filename = drop 7 path
         in if filename \<noteq> [] \<and> CHR ''/'' \<notin> set filename then Some filename else None)
      else None)"

datatype http_reply = SendFile "8 word list" string | JsonReply nat json

text \<open>\<^verbatim>\<open>send_file(path, mimetype=...)\<close> opens the path for reading.\<close>

fun send_file :: "entry \<Rightarrow> string \<Rightarrow> py_error + http_reply" where
  "send_file (RegularFile bytes) mimetype = Inr (SendFile bytes mimetype)"
| "send_file Directory mimetype = Inl IsADirectoryError"

definition serve_audio :: "world \<Rightarrow> string \<Rightarrow> py_error + http_reply" where
  "serve_audio w filename =
     (case path_entry w filename of
        Some en \<Rightarrow> send_file en ''audio/wav''
      | None \<Rightarrow> Inr (JsonReply 404 (JObj [(''error'', JStr ''Audio not found'')])))"

section \<open>Terms of the specification and example inputs\<close>

text \<open>
  The payload of a Jambonz turn webhook as the specification gives it:
  \<^verbatim>\<open>{speech: {alternatives: [{transcript}]}}\<close>.
\<close>

definition jambonz_payload :: "json \<Rightarrow> json" where
  "jambonz_payload transcript =
     JObj [(''speech'', JObj [(''alternatives'', JArr [JObj [(''transcript'', transcript)]])])]"

text \<open>
  The closing-phrase test of the specification: the lowercased text contains one of
  goodbye, bye, hang up, end call, that's all.
\<close>

definition spec_closing :: "string \<Rightarrow> bool" where
  "spec_closing s =
     list_ex (\<lambda>phrase. str_in phrase (lower s))
       [''goodbye'', ''bye'', ''hang up'', ''end call'', ''that's all'']"

text \<open>
  The request \<^verbatim>\<open>call_llm\<close> sends and the text its \<^verbatim>\<open>except\<close> branch returns, by
  the backend the configuration selects.
\<close>

definition respond_request :: "config \<Rightarrow> string \<Rightarrow> http_request" where
  "respond_request cfg message =
     (if LANGFLOW_FLOW_ID cfg \<noteq> [] then langflow_request cfg message else llm_request cfg message)"

definition respond_error_text :: "config \<Rightarrow> string" where
  "respond_error_text cfg =
     (if LANGFLOW_FLOW_ID cfg \<noteq> [] then langflow_error_text else llm_error_text)"

text \<open>
  The answers on which the \<^verbatim>\<open>try\<close> block of the configured Respond client raises:
  \<^verbatim>\<open>requests.post\<close> raises (timeout, connection error), \<^verbatim>\<open>raise_for_status\<close>
  raises, \<^verbatim>\<open>response.json()\<close> raises because the body is not JSON, or the extraction
  of the text raises on the shape of the body.
\<close>

definition respond_raises :: "config \<Rightarrow> http_result \<Rightarrow> bool" where
  "respond_raises cfg res =
     (case res of
        Raises err \<Rightarrow> True
      | Returns r \<Rightarrow>
          raise_for_status r \<or>
          (case json_body r of
             None \<Rightarrow> True
           | Some body \<Rightarrow>
               (if LANGFLOW_FLOW_ID cfg \<noteq> [] then
                  (case dict_get body ''outputs'' (JArr [JObj []]) of
                     Inl err \<Rightarrow> True
                   | Inr outputs \<Rightarrow> truthy outputs \<and> isl (langflow_text outputs))
                else isl (dict_get body ''response'' (JStr llm_missing_text)))))"



text \<open>
  Reading a TwiML document: the tags of the string in the order they open, each by the
  characters between \<^verbatim>\<open><\<close> and the first blank, line break or \<^verbatim>\<open>>\<close>. So
  \<^verbatim>\<open><Say voice="alice">hi</Say>\<close> has the tags \<^verbatim>\<open>Say\<close> and \<^verbatim>\<open>/Say\<close>, and
  \<^verbatim>\<open><Hangup/>\<close> the tag \<^verbatim>\<open>Hangup/\<close>.
\<close>

datatype scan_state = Outside | Head string | Inside

fun scan_char :: "string list \<times> scan_state \<Rightarrow> char \<Rightarrow> string list \<times> scan_state" where
  "scan_char (tags, Outside) c =
     (if c = CHR ''<'' then (tags, Head []) else (tags, Outside))"
| "scan_char (tags, Head name) c =
     (if c = CHR ''>'' then (tags @ [name], Outside)
      else if c = CHR '' '' \<or> c = CHR 0x0A then (tags @ [name], Inside)
      else (tags, Head (name @ [c])))"
| "scan_char (tags, Inside) c =
     (if c = CHR ''>'' then (tags, Outside) else (tags, Inside))"



text \<open>
  What a turn handler has fixed before it calls \<^verbatim>\<open>call_tts\<close> for a non-empty
  utterance: the text to speak (the farewell, or the reply of \<^verbatim>\<open>call_llm\<close>) and the
  verbs that follow the reply, with their tags. \<^verbatim>\<open>twilio_gather\<close> tests the five
  phrases of the specification, \<^verbatim>\<open>jambonz_gather\<close> its own list.
\<close>

definition twilio_turn_text :: "config \<Rightarrow> env \<Rightarrow> string \<Rightarrow> world \<Rightarrow> json \<times> world" where
  "twilio_turn_text cfg e s w =
     (if spec_closing s then (JStr twilio_farewell, w) else call_llm cfg e s w)"

definition twilio_turn_rest :: "config \<Rightarrow> string \<Rightarrow> string list" where
  "twilio_turn_rest cfg s =
     (if spec_closing s then [Hangup]
      else [Gather cfg, Say ''Are you still there?'', Hangup])"


definition jambonz_closing :: "string \<Rightarrow> bool" where
  "jambonz_closing s = list_ex (\<lambda>phrase. str_in phrase (lower s)) jambonz_goodbye_phrases"



text \<open>The re-prompt text as the specification quotes it.\<close>

definition spec_reprompt_text :: string where
  "spec_reprompt_text = ''I didn't catch that, could you repeat?''"

text \<open>Reading a field of a JSON object, and an option of a request body.\<close>

definition json_field :: "json \<Rightarrow> string \<Rightarrow> json option" where
  "json_field j k = (case j of JObj kvs \<Rightarrow> map_of kvs k | _ \<Rightarrow> None)"

definition request_option :: "http_request \<Rightarrow> string \<Rightarrow> json option" where
  "request_option req k =
     (case json_field (json_payload req) ''options'' of
        None \<Rightarrow> None
      | Some opts \<Rightarrow> json_field opts k)"

text \<open>The answer of \<^verbatim>\<open>serve_audio\<close> when the path does not exist.\<close>

definition not_found_reply :: http_reply where
  "not_found_reply = JsonReply 404 (JObj [(''error'', JStr ''Audio not found'')])"

text \<open>
  Concrete inputs: a configuration with the direct backend and one with a Langflow
  flow, a network that answers the Synthesize request one way and every other request
  another, an empty cache, and a cache that holds one file that is not a WAV artifact.
\<close>

definition example_config :: config where
  "example_config =
     \<lparr>BASE_URL = ''http://hotline'', TTS_URL = ''http://tts'', LLM_URL = ''http://llm'',
      LANGFLOW_URL = ''http://langflow'', LANGFLOW_FLOW_ID = [], SYSTEM_PROMPT = ''Be brief.''\<rparr>"

definition example_langflow_config :: config where
  "example_langflow_config = example_config\<lparr>LANGFLOW_FLOW_ID := ''flow-1''\<rparr>"

definition example_uuid :: string where
  "example_uuid = ''6fa459ea-ee8a-4ca4-894e-db77e160355e''"

definition example_env :: "http_result \<Rightarrow> http_result \<Rightarrow> env" where
  "example_env respond synthesize =
     \<lparr>post = (\<lambda>req. if url req = ''http://tts/tts'' then synthesize else respond),
      uuid4 = (\<lambda>n. example_uuid),
      str_of = (\<lambda>v. ''None'')\<rparr>"

definition empty_world :: world where
  "empty_world = \<lparr>audio_dir = Map.empty, uuids_drawn = 0, outbound = []\<rparr>"

definition example_cache :: world where
  "example_cache =
     \<lparr>audio_dir = [''notes.txt'' \<mapsto> RegularFile [1, 2, 3]], uuids_drawn = 0, outbound = []\<rparr>"

definition ok_json :: "json \<Rightarrow> http_result" where
  "ok_json j = Returns \<lparr>status_code = 200, content = [], json_body = Some j\<rparr>"

definition wav_response :: "nat \<Rightarrow> http_result" where
  "wav_response status = Returns \<lparr>status_code = status, content = [82, 73, 70, 70], json_body = None\<rparr>"


section \<open>The tags of the TwiML documents\<close>












lemma scan_line:
  "foldl scan_char (tags, Outside) verb = (tags', Outside) \<Longrightarrow>
   foldl scan_char (tags, Outside) (''    '' @ verb @ ''\<newline>'') = (tags', Outside)"
  by simp


section \<open>Facts about the backend clients\<close>

lemma jambonz_speech_text_payload: "jambonz_speech_text (jambonz_payload t) = Inr t"
  by (simp add: jambonz_speech_text_def jambonz_payload_def and_then_def)


lemma call_tts_url_nonempty: "call_tts cfg e t l w = (Some u, w') \<Longrightarrow> u \<noteq> []"
  by (auto simp add: call_tts_def send_def Let_def split: http_result.splits if_splits option.splits entry.splits)


lemma call_tts_outbound:
  "outbound (snd (call_tts cfg e t l w)) = outbound w @ [tts_request cfg t l]"
  by (simp add: call_tts_def send_def Let_def split: http_result.splits option.splits entry.splits)

lemma call_llm_raises:
  "respond_raises cfg (post e (respond_request cfg s)) \<Longrightarrow>
   call_llm cfg e s w =
     (JStr (respond_error_text cfg), w\<lparr>outbound := outbound w @ [respond_request cfg s]\<rparr>)"
  by (auto simp add: call_llm_def call_langflow_def send_def respond_raises_def respond_request_def
        respond_error_text_def llm_reply_def langflow_reply_def
        split: http_result.splits option.splits sum.splits if_splits)

lemma call_llm_outbound_length:
  "length (outbound (snd (call_llm cfg e s w))) = Suc (length (outbound w))"
  by (simp add: call_llm_def call_langflow_def send_def)

lemma twilio_phrases_closing:
  "list_ex (\<lambda>phrase. str_in phrase (lower s)) twilio_goodbye_phrases = spec_closing s"
  by (simp add: twilio_goodbye_phrases_def spec_closing_def)

lemma jambonz_closing_spec: "jambonz_closing s \<Longrightarrow> spec_closing s"
  by (auto simp add: jambonz_closing_def jambonz_goodbye_phrases_def spec_closing_def)

lemma fstring_JStr: "fstring e (JStr s) = s"
  by (simp add: fstring_def)

lemma if_url_None: "if_url None f g = g"
  by (simp add: if_url_def)

lemma if_url_Some: "u \<noteq> [] \<Longrightarrow> if_url (Some u) f g = f u"
  by (simp add: if_url_def)

lemma hello_not_closing: "\<not> spec_closing ''hello''"
  by (simp add: spec_closing_def lower_def lower_char_def)

lemma hello_not_jambonz_closing: "\<not> jambonz_closing ''hello''"
  by (simp add: jambonz_closing_def jambonz_goodbye_phrases_def lower_def lower_char_def)

lemmas example_simps =
  example_env_def example_config_def example_langflow_config_def empty_world_def example_uuid_def
  ok_json_def wav_response_def call_tts_def call_llm_def call_langflow_def send_def tts_request_def
  llm_request_def langflow_request_def llm_reply_def langflow_reply_def llm_prompt_def
  raise_for_status_def path_entry_def Let_def

section \<open>The turn handlers in normal form\<close>

lemma twilio_turn_normal_form:
  assumes "s \<noteq> []" and "form_get form ''SpeechResult'' [] = s"
  shows "twilio_gather cfg e form w =
     (let (text, w1) = twilio_turn_text cfg e s w;
          (audio_url, w2) = call_tts cfg e text ''en'' w1
      in (twiml ((case audio_url of None \<Rightarrow> Say_alice (fstring e text) | Some u \<Rightarrow> Play u)
                 # twilio_turn_rest cfg s),
          w2))"
proof (cases "spec_closing s")
  case True
  obtain a w2 where c: "call_tts cfg e (JStr twilio_farewell) ''en'' w = (a, w2)"
    by (cases "call_tts cfg e (JStr twilio_farewell) ''en'' w")
  show ?thesis
  proof (cases a)
    case None
    with True c assms show ?thesis
      by (simp add: twilio_gather_def twilio_phrases_closing twilio_turn_text_def
            twilio_turn_rest_def if_url_None fstring_def)
  next
    case (Some u)
    with c have "u \<noteq> []" using call_tts_url_nonempty by blast
    with Some True c assms show ?thesis
      by (simp add: twilio_gather_def twilio_phrases_closing twilio_turn_text_def
            twilio_turn_rest_def if_url_Some)
  qed
next
  case False
  obtain reply w1 where l: "call_llm cfg e s w = (reply, w1)"
    by (cases "call_llm cfg e s w")
  obtain a w2 where c: "call_tts cfg e reply ''en'' w1 = (a, w2)"
    by (cases "call_tts cfg e reply ''en'' w1")
  show ?thesis
  proof (cases a)
    case None
    with False l c assms show ?thesis
      by (simp add: twilio_gather_def twilio_phrases_closing twilio_turn_text_def
            twilio_turn_rest_def if_url_None)
  next
    case (Some u)
    with c have "u \<noteq> []" using call_tts_url_nonempty by blast
    with Some False l c assms show ?thesis
      by (simp add: twilio_gather_def twilio_phrases_closing twilio_turn_text_def
            twilio_turn_rest_def if_url_Some)
  qed
qed






section \<open>The tags of the turn and greeting documents\<close>








section \<open>A reply that holds markup\<close>



section \<open>A failed Synthesize call\<close>




section \<open>A Respond call that raises\<close>

text \<open>
  Whenever the \<^verbatim>\<open>try\<close> block of the configured Respond client raises (the request,
  the status check, the JSON decoding or the extraction of the text), both turn
  handlers return normally for a non-empty utterance with no closing phrase: the reply
  is the fixed apology of that backend, its synthesis is attempted, and the document is
  the non-terminal one. The requests sent are the Respond request and the Synthesize
  request for the apology.
\<close>

theorem respond_raises_apology:
  assumes "s \<noteq> []" and "\<not> spec_closing s"
    and "respond_raises cfg (post e (respond_request cfg s))"
    and "form_get form ''SpeechResult'' [] = s"
    and "jambonz_speech_text body = Inr (JStr s)"
  shows "twilio_gather cfg e form w =
           (let (audio_url, w2) =
                  call_tts cfg e (JStr (respond_error_text cfg)) ''en''
                    (w\<lparr>outbound := outbound w @ [respond_request cfg s]\<rparr>)
            in (if_url audio_url
                  (\<lambda>u. twiml [Play u, Gather cfg, Say ''Are you still there?'', Hangup])
                  (twiml [Say_alice (respond_error_text cfg), Gather cfg,
                          Say ''Are you still there?'', Hangup]),
                w2))
         \<and> jambonz_gather cfg e body w =
           (let (audio_url, w2) =
                  call_tts cfg e (JStr (respond_error_text cfg)) ''en''
                    (w\<lparr>outbound := outbound w @ [respond_request cfg s]\<rparr>)
            in Inr (JArr [if_url audio_url verb_play (verb_say (JStr (respond_error_text cfg))),
                          verb_gather cfg, verb_hangup],
                    w2))
         \<and> outbound (snd (twilio_gather cfg e form w)) =
             outbound w @ [respond_request cfg s,
                           tts_request cfg (JStr (respond_error_text cfg)) ''en'']"
proof -
  have llm: "call_llm cfg e s w =
     (JStr (respond_error_text cfg), w\<lparr>outbound := outbound w @ [respond_request cfg s]\<rparr>)"
    using assms(3) by (rule call_llm_raises)
  have nj: "\<not> list_ex (\<lambda>phrase. str_in phrase (lower s)) jambonz_goodbye_phrases"
    using assms(2) jambonz_closing_spec by (auto simp add: jambonz_closing_def)
  have tw: "twilio_gather cfg e form w =
           (let (audio_url, w2) =
                  call_tts cfg e (JStr (respond_error_text cfg)) ''en''
                    (w\<lparr>outbound := outbound w @ [respond_request cfg s]\<rparr>)
            in (if_url audio_url
                  (\<lambda>u. twiml [Play u, Gather cfg, Say ''Are you still there?'', Hangup])
                  (twiml [Say_alice (respond_error_text cfg), Gather cfg,
                          Say ''Are you still there?'', Hangup]),
                w2))"
    using assms(1,2,4)
    by (simp add: twilio_gather_def twilio_phrases_closing llm fstring_JStr split: prod.splits)
  have jb: "jambonz_gather cfg e body w =
           (let (audio_url, w2) =
                  call_tts cfg e (JStr (respond_error_text cfg)) ''en''
                    (w\<lparr>outbound := outbound w @ [respond_request cfg s]\<rparr>)
            in Inr (JArr [if_url audio_url verb_play (verb_say (JStr (respond_error_text cfg))),
                          verb_gather cfg, verb_hangup],
                    w2))"
    using assms(1,5) nj
    by (simp add: jambonz_gather_def and_then_def jambonz_turn_def llm split: prod.splits)
  have ob: "outbound (snd (twilio_gather cfg e form w)) =
             outbound w @ [respond_request cfg s,
                           tts_request cfg (JStr (respond_error_text cfg)) ''en'']"
  proof (cases "call_tts cfg e (JStr (respond_error_text cfg)) ''en''
                  (w\<lparr>outbound := outbound w @ [respond_request cfg s]\<rparr>)")
    case (Pair audio_url w2)
    with call_tts_outbound [of cfg e "JStr (respond_error_text cfg)" "''en''"
        "w\<lparr>outbound := outbound w @ [respond_request cfg s]\<rparr>"]
    show ?thesis by (simp add: tw)
  qed
  from tw jb ob show ?thesis by blast
qed

section \<open>The empty utterance and the direct Respond request\<close>

text \<open>
  Claim C5, as amended. When the decoded utterance text is the empty string, each turn
  handler returns the non-terminal document that says the fixed re-prompt
  \<^verbatim>\<open>I didn't catch that. Could you repeat?\<close> and then gathers again; the state is
  left as it was, so no request went to the Respond (or any other) backend.
\<close>

theorem empty_utterance_reprompts:
  assumes "form_get form ''SpeechResult'' [] = []"
    and "jambonz_speech_text body = Inr (JStr [])"
  shows "twilio_gather cfg e form w =
           (twiml [Say_alice ''I didn't catch that. Could you repeat?'',
                   Gather cfg,
                   Say ''Still nothing. Goodbye!'',
                   Hangup],
            w)
         \<and> jambonz_gather cfg e body w =
           Inr (JArr [verb_say (JStr ''I didn't catch that. Could you repeat?''),
                      verb_gather cfg, verb_hangup],
                w)
         \<and> outbound (snd (twilio_gather cfg e form w)) = outbound w"
  using assms
  by (simp add: twilio_gather_def jambonz_gather_def and_then_def reprompt_text_def)

theorem empty_utterance_reprompts_witness:
  "form_get [(''CallSid'', ''CA1''), (''SpeechResult'', [])] ''SpeechResult'' [] = []
   \<and> jambonz_speech_text (jambonz_payload (JStr [])) = Inr (JStr [])
   \<and> twilio_gather example_config (example_env (Raises Timeout) (Raises Timeout))
        [(''CallSid'', ''CA1''), (''SpeechResult'', [])] empty_world =
       (twiml [Say_alice ''I didn't catch that. Could you repeat?'',
               Gather example_config,
               Say ''Still nothing. Goodbye!'',
               Hangup],
        empty_world)
   \<and> jambonz_gather example_config (example_env (Raises Timeout) (Raises Timeout))
        (jambonz_payload (JStr [])) empty_world =
       Inr (JArr [verb_say (JStr ''I didn't catch that. Could you repeat?''),
                  verb_gather example_config, verb_hangup],
            empty_world)"
proof -
  have h1: "form_get [(''CallSid'', ''CA1''), (''SpeechResult'', [])] ''SpeechResult'' [] = []"
    by (simp add: form_get_def)
  have h2: "jambonz_speech_text (jambonz_payload (JStr [])) = Inr (JStr [])"
    by (rule jambonz_speech_text_payload)
  from empty_utterance_reprompts [OF h1 h2, of example_config
      "example_env (Raises Timeout) (Raises Timeout)" empty_world] h1 h2
  show ?thesis by simp
qed

text \<open>
  Claim C5 as stated quotes the re-prompt with a comma and a small letter; the text the
  handlers say has a full stop and a capital.
\<close>

theorem reprompt_text_differs_from_quoted:
  "twilio_gather example_config (example_env (Raises Timeout) (Raises Timeout))
     [(''SpeechResult'', [])] empty_world =
     (twiml [Say_alice reprompt_text, Gather example_config,
             Say ''Still nothing. Goodbye!'', Hangup],
      empty_world)
   \<and> reprompt_text = ''I didn't catch that. Could you repeat?''
   \<and> reprompt_text \<noteq> spec_reprompt_text"
  by (simp add: twilio_gather_def form_get_def reprompt_text_def spec_reprompt_text_def)

lemma call_llm_direct:
  "LANGFLOW_FLOW_ID cfg = [] \<Longrightarrow>
   call_llm cfg e message w =
     (llm_reply (post e (llm_request cfg message)),
      w\<lparr>outbound := outbound w @ [llm_request cfg message]\<rparr>)"
  by (simp add: call_llm_def send_def)

text \<open>
  Claim C8, as amended. With no Langflow flow configured, \<^verbatim>\<open>call_llm\<close> sends one
  request: a POST to \<^verbatim>\<open>{LLM_URL}/api/generate\<close> with a timeout of 60 seconds, whose JSON
  body carries the model name, the prompt, \<^verbatim>\<open>stream\<close> false and the options
  \<^verbatim>\<open>temperature\<close> 0.7 and \<^verbatim>\<open>num_predict\<close> 150; it has no option \<^verbatim>\<open>max_tokens\<close>.
  When the answer passes the status check and is a JSON object with a field
  \<^verbatim>\<open>response\<close>, the reply is the value of that field.
\<close>

theorem direct_respond_request:
  assumes "LANGFLOW_FLOW_ID cfg = []"
  shows "outbound (snd (call_llm cfg e message w)) = outbound w @ [llm_request cfg message]
         \<and> http_method (llm_request cfg message) = ''POST''
         \<and> url (llm_request cfg message) = LLM_URL cfg @ ''/api/generate''
         \<and> timeout (llm_request cfg message) = 60
         \<and> json_payload (llm_request cfg message) =
             JObj [(''model'', JStr ''llama3.1:8b''),
                   (''prompt'', JStr (SYSTEM_PROMPT cfg @ ''\<newline>\<newline>User: '' @ message
                                      @ ''\<newline>Assistant:'')),
                   (''stream'', JBool False),
                   (''options'', JObj [(''temperature'', JFloat (7 / 10)),
                                       (''num_predict'', JInt 150)])]
         \<and> request_option (llm_request cfg message) ''max_tokens'' = None
         \<and> (\<forall>r fields reply.
               post e (llm_request cfg message) = Returns r \<and> \<not> raise_for_status r
               \<and> json_body r = Some (JObj fields) \<and> map_of fields ''response'' = Some reply
               \<longrightarrow> fst (call_llm cfg e message w) = reply)"
proof -
  have reply: "\<forall>r fields reply.
               post e (llm_request cfg message) = Returns r \<and> \<not> raise_for_status r
               \<and> json_body r = Some (JObj fields) \<and> map_of fields ''response'' = Some reply
               \<longrightarrow> fst (call_llm cfg e message w) = reply"
    using assms by (auto simp add: call_llm_direct llm_reply_def)
  have shape: "json_payload (llm_request cfg message) =
             JObj [(''model'', JStr ''llama3.1:8b''),
                   (''prompt'', JStr (SYSTEM_PROMPT cfg @ ''\<newline>\<newline>User: '' @ message
                                      @ ''\<newline>Assistant:'')),
                   (''stream'', JBool False),
                   (''options'', JObj [(''temperature'', JFloat (7 / 10)),
                                       (''num_predict'', JInt 150)])]"
    by (simp add: llm_request_def llm_prompt_def)
  have opt: "request_option (llm_request cfg message) ''max_tokens'' = None"
    by (simp add: request_option_def json_field_def shape)
  have rest: "outbound (snd (call_llm cfg e message w)) = outbound w @ [llm_request cfg message]
         \<and> http_method (llm_request cfg message) = ''POST''
         \<and> url (llm_request cfg message) = LLM_URL cfg @ ''/api/generate''
         \<and> timeout (llm_request cfg message) = 60"
    using assms by (simp add: call_llm_direct) (simp add: llm_request_def)
  from reply shape opt rest show ?thesis by blast
qed

theorem direct_respond_request_witness:
  "LANGFLOW_FLOW_ID example_config = []
   \<and> post (example_env (ok_json (JObj [(''response'', JStr ''Hi there'')])) (wav_response 200))
        (llm_request example_config ''hello'')
       = Returns \<lparr>status_code = 200, content = [],
                  json_body = Some (JObj [(''response'', JStr ''Hi there'')])\<rparr>
   \<and> \<not> raise_for_status \<lparr>status_code = 200, content = [],
                  json_body = Some (JObj [(''response'', JStr ''Hi there'')])\<rparr>
   \<and> map_of [(''response'', JStr ''Hi there'')] ''response'' = Some (JStr ''Hi there'')
   \<and> fst (call_llm example_config
            (example_env (ok_json (JObj [(''response'', JStr ''Hi there'')])) (wav_response 200))
            ''hello'' empty_world) = JStr ''Hi there''
   \<and> outbound (snd (call_llm example_config
            (example_env (ok_json (JObj [(''response'', JStr ''Hi there'')])) (wav_response 200))
            ''hello'' empty_world)) = [llm_request example_config ''hello'']"
proof -
  let ?e = "example_env (ok_json (JObj [(''response'', JStr ''Hi there'')])) (wav_response 200)"
  let ?r = "\<lparr>status_code = 200, content = [],
                  json_body = Some (JObj [(''response'', JStr ''Hi there'')])\<rparr>"
  have h0: "LANGFLOW_FLOW_ID example_config = []" by (simp add: example_config_def)
  have h1: "post ?e (llm_request example_config ''hello'') = Returns ?r"
    by (simp add: example_env_def ok_json_def llm_request_def example_config_def)
  have h2: "\<not> raise_for_status ?r" by (simp add: raise_for_status_def)
  have h3: "json_body ?r = Some (JObj [(''response'', JStr ''Hi there'')])" by simp
  have h4: "map_of [(''response'', JStr ''Hi there'')] ''response'' = Some (JStr ''Hi there'')"
    by simp
  from direct_respond_request [OF h0, of ?e "''hello''" empty_world] h1 h2 h3 h4
  have "fst (call_llm example_config ?e ''hello'' empty_world) = JStr ''Hi there''"
    and "outbound (snd (call_llm example_config ?e ''hello'' empty_world))
           = [llm_request example_config ''hello'']"
    by (blast, simp add: empty_world_def)
  with h0 h1 h2 h4 show ?thesis by blast
qed

text \<open>
  Claim C8 as stated names an option \<^verbatim>\<open>max_tokens\<close>; the request has none, the limit
  is sent as \<^verbatim>\<open>num_predict\<close>.
\<close>

theorem direct_request_has_no_max_tokens:
  "outbound (snd (call_llm example_config
       (example_env (ok_json (JObj [(''response'', JStr ''Hi there'')])) (wav_response 200))
       ''hello'' empty_world)) = [llm_request example_config ''hello'']
   \<and> request_option (llm_request example_config ''hello'') ''max_tokens'' = None
   \<and> request_option (llm_request example_config ''hello'') ''num_predict'' = Some (JInt 150)
   \<and> request_option (llm_request example_config ''hello'') ''temperature'' = Some (JFloat (7 / 10))"
  by (simp add: call_llm_def send_def example_config_def empty_world_def request_option_def
        json_field_def llm_request_def)

section \<open>The reply branch of every document\<close>




section \<open>The audio cache and its route\<close>

lemma starts_with_append: "starts_with s p \<Longrightarrow> s = p @ drop (length p) s"
  by (induction s p rule: starts_with.induct) auto

lemma starts_with_prefix: "starts_with (p @ t) p"
  by (induction p) auto

lemma audio_route_Some:
  assumes "audio_route path = Some filename"
  shows "path = ''/audio/'' @ filename \<and> filename \<noteq> [] \<and> CHR ''/'' \<notin> set filename"
proof -
  from assms have sw: "starts_with path ''/audio/''"
    by (auto simp add: audio_route_def split: if_splits)
  with assms have f: "filename = drop 7 path" and ne: "filename \<noteq> []"
    and ns: "CHR ''/'' \<notin> set filename"
    by (auto simp add: audio_route_def Let_def split: if_splits)
  have len: "length ''/audio/'' = 7" by simp
  have "path = ''/audio/'' @ drop (length ''/audio/'') path"
    using sw by (rule starts_with_append)
  then have "path = ''/audio/'' @ drop 7 path" unfolding len .
  with f have "path = ''/audio/'' @ filename" by (simp only:)
  with ne ns show ?thesis by blast
qed

lemma audio_route_segment:
  "name \<noteq> [] \<Longrightarrow> CHR ''/'' \<notin> set name \<Longrightarrow> audio_route (''/audio/'' @ name) = Some name"
  using starts_with_prefix [of "''/audio/''" name] by (simp add: audio_route_def)

lemma wav_name_not_link: "audio_id @ ''.wav'' \<noteq> ''.'' \<and> audio_id @ ''.wav'' \<noteq> ''..''"
proof -
  have one: "audio_id @ ''.wav'' \<noteq> ''.''"
  proof
    assume "audio_id @ ''.wav'' = ''.''"
    then have "length (audio_id @ ''.wav'') = length ''.''" by (rule arg_cong)
    then show False by simp
  qed
  have two: "audio_id @ ''.wav'' \<noteq> ''..''"
  proof
    assume "audio_id @ ''.wav'' = ''..''"
    then have "length (audio_id @ ''.wav'') = length ''..''" by (rule arg_cong)
    then show False by simp
  qed
  from one two show ?thesis by blast
qed

lemma call_tts_stored:
  assumes "call_tts cfg e text language w = (Some audio_url, w')"
    and "post e (tts_request cfg text language) = Returns r"
  shows "audio_url = BASE_URL cfg @ ''/audio/'' @ uuid4 e (uuids_drawn w) @ ''.wav''"
    and "audio_dir w' = (audio_dir w)(uuid4 e (uuids_drawn w) @ ''.wav'' \<mapsto> RegularFile (content r))"
  using assms
  by (auto simp add: call_tts_def send_def Let_def split: if_splits option.splits entry.splits)

lemma serve_audio_file:
  "path_entry w filename = Some (RegularFile bytes) \<Longrightarrow>
   serve_audio w filename = Inr (SendFile bytes ''audio/wav'')"
  by (simp add: serve_audio_def)

lemma serve_audio_none:
  "path_entry w filename = None \<Longrightarrow> serve_audio w filename = Inr not_found_reply"
  by (simp add: serve_audio_def not_found_reply_def)

lemma stored_entry:
  assumes "call_tts cfg e text language w = (Some audio_url, w')"
    and "post e (tts_request cfg text language) = Returns r"
  shows "path_entry w' (uuid4 e (uuids_drawn w) @ ''.wav'') = Some (RegularFile (content r))"
  using call_tts_stored(2) [OF assms] wav_name_not_link [of "uuid4 e (uuids_drawn w)"]
  by (simp add: path_entry_def)

lemma bare_id_entry:
  assumes "call_tts cfg e text language w = (Some audio_url, w')"
    and "post e (tts_request cfg text language) = Returns r"
  shows "path_entry w' (uuid4 e (uuids_drawn w)) = path_entry w (uuid4 e (uuids_drawn w))"
  using call_tts_stored(2) [OF assms] by (simp add: path_entry_def)

text \<open>
  Claim C10. When \<^verbatim>\<open>call_tts\<close> succeeds, the URL it returns ends in the segment
  \<^verbatim>\<open><uuid4>.wav\<close>, the name under which the bytes were written: the route gives
  that segment to \<^verbatim>\<open>serve_audio\<close>, which answers with the stored bytes as
  \<^verbatim>\<open>audio/wav\<close>, while the identifier without the suffix names no stored file (a 404
  when the cache had no such entry; the identifier has no slash). A path matches the
  route only as \<^verbatim>\<open>/audio/\<close> followed by one non-empty segment without a slash, so
  the handler looks up a single name inside the cache directory, and its answer depends
  on the entry of that name alone. Any regular file there is served byte for byte as
  \<^verbatim>\<open>audio/wav\<close>, whatever its extension.
\<close>

theorem artifact_id_is_file_name:
  assumes "call_tts cfg e text language w = (Some audio_url, w')"
    and "post e (tts_request cfg text language) = Returns r"
    and "CHR ''/'' \<notin> set (uuid4 e (uuids_drawn w))"
    and "path_entry w (uuid4 e (uuids_drawn w)) = None"
    and "audio_route path = Some filename"
    and "path_entry w2 filename = Some (RegularFile bytes)"
    and "path_entry w3 filename = path_entry w2 filename"
  shows "audio_url = BASE_URL cfg @ ''/audio/'' @ uuid4 e (uuids_drawn w) @ ''.wav''
         \<and> audio_route (''/audio/'' @ uuid4 e (uuids_drawn w) @ ''.wav'')
             = Some (uuid4 e (uuids_drawn w) @ ''.wav'')
         \<and> serve_audio w' (uuid4 e (uuids_drawn w) @ ''.wav'')
             = Inr (SendFile (content r) ''audio/wav'')
         \<and> serve_audio w' (uuid4 e (uuids_drawn w)) = Inr not_found_reply
         \<and> path = ''/audio/'' @ filename \<and> filename \<noteq> [] \<and> CHR ''/'' \<notin> set filename
         \<and> serve_audio w2 filename = Inr (SendFile bytes ''audio/wav'')
         \<and> serve_audio w3 filename = serve_audio w2 filename"
proof -
  let ?id = "uuid4 e (uuids_drawn w)"
  have u: "audio_url = BASE_URL cfg @ ''/audio/'' @ ?id @ ''.wav''"
    using assms(1,2) by (rule call_tts_stored(1))
  have "CHR ''/'' \<notin> set (?id @ ''.wav'')" using assms(3) by simp
  then have rt: "audio_route (''/audio/'' @ ?id @ ''.wav'') = Some (?id @ ''.wav'')"
    by (intro audio_route_segment) simp_all
  have get: "serve_audio w' (?id @ ''.wav'') = Inr (SendFile (content r) ''audio/wav'')"
    using stored_entry [OF assms(1,2)] by (rule serve_audio_file)
  have bare: "serve_audio w' ?id = Inr not_found_reply"
    using bare_id_entry [OF assms(1,2)] assms(4) by (simp add: serve_audio_none)
  have seg: "path = ''/audio/'' @ filename \<and> filename \<noteq> [] \<and> CHR ''/'' \<notin> set filename"
    using assms(5) by (rule audio_route_Some)
  have served: "serve_audio w2 filename = Inr (SendFile bytes ''audio/wav'')"
    using assms(6) by (rule serve_audio_file)
  have loc: "serve_audio w3 filename = serve_audio w2 filename"
    using assms(7) by (simp add: serve_audio_def)
  from u rt get bare seg served loc show ?thesis by blast
qed

theorem artifact_id_is_file_name_witness:
  "fst (call_tts example_config (example_env (Raises Timeout) (wav_response 200))
          (JStr ''Hi there'') ''en'' empty_world)
     = Some ''http://hotline/audio/6fa459ea-ee8a-4ca4-894e-db77e160355e.wav''
   \<and> post (example_env (Raises Timeout) (wav_response 200))
        (tts_request example_config (JStr ''Hi there'') ''en'') = wav_response 200
   \<and> CHR ''/'' \<notin> set (uuid4 (example_env (Raises Timeout) (wav_response 200))
                          (uuids_drawn empty_world))
   \<and> path_entry empty_world example_uuid = None
   \<and> audio_route ''/audio/notes.txt'' = Some ''notes.txt''
   \<and> path_entry example_cache ''notes.txt'' = Some (RegularFile [1, 2, 3])
   \<and> serve_audio
        (snd (call_tts example_config (example_env (Raises Timeout) (wav_response 200))
                (JStr ''Hi there'') ''en'' empty_world))
        ''6fa459ea-ee8a-4ca4-894e-db77e160355e.wav''
       = Inr (SendFile [82, 73, 70, 70] ''audio/wav'')
   \<and> serve_audio
        (snd (call_tts example_config (example_env (Raises Timeout) (wav_response 200))
                (JStr ''Hi there'') ''en'' empty_world))
        ''6fa459ea-ee8a-4ca4-894e-db77e160355e'' = Inr not_found_reply
   \<and> audio_route ''/audio/6fa459ea-ee8a-4ca4-894e-db77e160355e.wav''
       = Some ''6fa459ea-ee8a-4ca4-894e-db77e160355e.wav''
   \<and> serve_audio example_cache ''notes.txt'' = Inr (SendFile [1, 2, 3] ''audio/wav'')
   \<and> serve_audio (example_cache\<lparr>uuids_drawn := 5\<rparr>) ''notes.txt''
       = serve_audio example_cache ''notes.txt''"
proof -
  let ?e = "example_env (Raises Timeout) (wav_response 200)"
  let ?r = "\<lparr>status_code = 200, content = [82, 73, 70, 70], json_body = None\<rparr>"
  let ?url = "''http://hotline/audio/6fa459ea-ee8a-4ca4-894e-db77e160355e.wav''"
  let ?w' = "snd (call_tts example_config ?e (JStr ''Hi there'') ''en'' empty_world)"
  have f: "fst (call_tts example_config ?e (JStr ''Hi there'') ''en'' empty_world) = Some ?url"
    by (simp add: example_simps)
  then have h1: "call_tts example_config ?e (JStr ''Hi there'') ''en'' empty_world = (Some ?url, ?w')"
    by (simp add: prod_eq_iff)
  have p: "post ?e (tts_request example_config (JStr ''Hi there'') ''en'') = wav_response 200"
    by (simp add: example_env_def tts_request_def example_config_def)
  then have h2: "post ?e (tts_request example_config (JStr ''Hi there'') ''en'') = Returns ?r"
    by (simp add: wav_response_def)
  have id: "uuid4 ?e (uuids_drawn empty_world) = ''6fa459ea-ee8a-4ca4-894e-db77e160355e''"
    by (simp add: example_env_def example_uuid_def)
  have h3: "CHR ''/'' \<notin> set (uuid4 ?e (uuids_drawn empty_world))"
    by (simp add: id)
  have h4': "path_entry empty_world example_uuid = None"
    by (simp add: path_entry_def empty_world_def example_uuid_def)
  then have h4: "path_entry empty_world (uuid4 ?e (uuids_drawn empty_world)) = None"
    by (simp add: example_env_def)
  have h5: "audio_route ''/audio/notes.txt'' = Some ''notes.txt''"
    by (simp add: audio_route_def)
  have h6: "path_entry example_cache ''notes.txt'' = Some (RegularFile [1, 2, 3])"
    by (simp add: path_entry_def example_cache_def)
  have h7: "path_entry (example_cache\<lparr>uuids_drawn := 5\<rparr>) ''notes.txt''
              = path_entry example_cache ''notes.txt''"
    by (simp add: path_entry_def)
  from artifact_id_is_file_name [OF h1 h2 h3 h4 h5 h6 h7]
  have "serve_audio ?w' ''6fa459ea-ee8a-4ca4-894e-db77e160355e.wav''
       = Inr (SendFile [82, 73, 70, 70] ''audio/wav'')"
    and "serve_audio ?w' ''6fa459ea-ee8a-4ca4-894e-db77e160355e'' = Inr not_found_reply"
    and "audio_route ''/audio/6fa459ea-ee8a-4ca4-894e-db77e160355e.wav''
       = Some ''6fa459ea-ee8a-4ca4-894e-db77e160355e.wav''"
    and "serve_audio example_cache ''notes.txt'' = Inr (SendFile [1, 2, 3] ''audio/wav'')"
    and "serve_audio (example_cache\<lparr>uuids_drawn := 5\<rparr>) ''notes.txt''
       = serve_audio example_cache ''notes.txt''"
    by (simp_all add: id)
  with f p h3 h4' h5 h6 show ?thesis by blast
qed

text \<open>
  The round trip of the artifact store: after a successful \<^verbatim>\<open>call_tts\<close>, serving the
  last segment of the returned URL gives back the bytes of the Synthesize response, as
  \<^verbatim>\<open>audio/wav\<close>.
\<close>

theorem put_then_get_round_trip:
  assumes "call_tts cfg e text language w = (Some audio_url, w')"
    and "post e (tts_request cfg text language) = Returns r"
  shows "\<exists>name. audio_url = BASE_URL cfg @ ''/audio/'' @ name
                \<and> serve_audio w' name = Inr (SendFile (content r) ''audio/wav'')"
proof -
  have "audio_url = BASE_URL cfg @ ''/audio/'' @ (uuid4 e (uuids_drawn w) @ ''.wav'')"
    using call_tts_stored(1) [OF assms] by simp
  moreover have "serve_audio w' (uuid4 e (uuids_drawn w) @ ''.wav'')
                   = Inr (SendFile (content r) ''audio/wav'')"
    using stored_entry [OF assms] by (rule serve_audio_file)
  ultimately show ?thesis by blast
qed

theorem put_then_get_round_trip_witness:
  "fst (call_tts example_config (example_env (Raises Timeout) (wav_response 200))
          (JStr ''Hi there'') ''en'' example_cache)
     = Some ''http://hotline/audio/6fa459ea-ee8a-4ca4-894e-db77e160355e.wav''
   \<and> (\<exists>name. ''http://hotline/audio/6fa459ea-ee8a-4ca4-894e-db77e160355e.wav''
                = BASE_URL example_config @ ''/audio/'' @ name
              \<and> serve_audio
                   (snd (call_tts example_config (example_env (Raises Timeout) (wav_response 200))
                           (JStr ''Hi there'') ''en'' example_cache))
                   name
                 = Inr (SendFile [82, 73, 70, 70] ''audio/wav''))"
proof -
  let ?e = "example_env (Raises Timeout) (wav_response 200)"
  let ?r = "\<lparr>status_code = 200, content = [82, 73, 70, 70], json_body = None\<rparr>"
  let ?url = "''http://hotline/audio/6fa459ea-ee8a-4ca4-894e-db77e160355e.wav''"
  let ?w' = "snd (call_tts example_config ?e (JStr ''Hi there'') ''en'' example_cache)"
  have f: "fst (call_tts example_config ?e (JStr ''Hi there'') ''en'' example_cache) = Some ?url"
    by (simp add: example_simps example_cache_def)
  then have h1: "call_tts example_config ?e (JStr ''Hi there'') ''en'' example_cache = (Some ?url, ?w')"
    by (simp add: prod_eq_iff)
  have h2: "post ?e (tts_request example_config (JStr ''Hi there'') ''en'') = Returns ?r"
    by (simp add: example_env_def tts_request_def example_config_def wav_response_def)
  from put_then_get_round_trip [OF h1 h2] f show ?thesis by simp
qed

text \<open>
  A name with no entry in the cache directory is answered with status 404 and the JSON
  body \<^verbatim>\<open>{"error": "Audio not found"}\<close>.
\<close>

theorem serve_audio_unknown_name:
  assumes "path_entry w filename = None"
  shows "serve_audio w filename = Inr (JsonReply 404 (JObj [(''error'', JStr ''Audio not found'')]))"
  using assms by (simp add: serve_audio_def)

theorem serve_audio_unknown_name_witness:
  "path_entry example_cache ''missing.wav'' = None
   \<and> serve_audio example_cache ''missing.wav''
       = Inr (JsonReply 404 (JObj [(''error'', JStr ''Audio not found'')]))"
proof -
  have h: "path_entry example_cache ''missing.wav'' = None"
    by (simp add: path_entry_def example_cache_def)
  from serve_audio_unknown_name [OF h] h show ?thesis by blast
qed

text \<open>
  \<^verbatim>\<open>twilio_gather\<close> on a non-empty utterance that contains one of the five closing
  phrases, in any letter case: the document plays or says the fixed farewell and hangs
  up, with no gather and no call of the Respond client.
\<close>

theorem twilio_closing_phrase_hangs_up:
  assumes "s \<noteq> []" and "spec_closing s" and "form_get form ''SpeechResult'' [] = s"
  shows "twilio_gather cfg e form w =
           (let (audio_url, w1) =
                  call_tts cfg e (JStr ''Thank you for calling! Have a great day. Goodbye!'') ''en'' w
            in (twiml [case audio_url of
                         None \<Rightarrow> Say_alice ''Thank you for calling! Have a great day. Goodbye!''
                       | Some u \<Rightarrow> Play u,
                       Hangup],
                w1))"
  using twilio_turn_normal_form [OF assms(1,3), of cfg e w] assms(2)
  by (simp add: twilio_turn_text_def twilio_turn_rest_def twilio_farewell_def fstring_JStr
        split: prod.splits option.splits)

theorem twilio_closing_phrase_hangs_up_witness:
  "''Okay GOODBYE'' \<noteq> [] \<and> spec_closing ''Okay GOODBYE''
   \<and> form_get [(''SpeechResult'', ''Okay GOODBYE'')] ''SpeechResult'' [] = ''Okay GOODBYE''
   \<and> fst (twilio_gather example_config (example_env (Raises Timeout) (Raises ConnectionError))
            [(''SpeechResult'', ''Okay GOODBYE'')] empty_world)
       = twiml [Say_alice ''Thank you for calling! Have a great day. Goodbye!'', Hangup]"
proof -
  let ?e = "example_env (Raises Timeout) (Raises ConnectionError)"
  have h1: "''Okay GOODBYE'' \<noteq> []" by simp
  have h2: "spec_closing ''Okay GOODBYE''"
    by (simp add: spec_closing_def lower_def lower_char_def)
  have h3: "form_get [(''SpeechResult'', ''Okay GOODBYE'')] ''SpeechResult'' [] = ''Okay GOODBYE''"
    by (simp add: form_get_def)
  have t: "fst (call_tts example_config ?e
                 (JStr ''Thank you for calling! Have a great day. Goodbye!'') ''en'' empty_world)
             = None"
    by (simp add: example_simps)
  from twilio_closing_phrase_hangs_up [OF h1 h2 h3, of example_config ?e empty_world]
  have "fst (twilio_gather example_config ?e [(''SpeechResult'', ''Okay GOODBYE'')] empty_world)
       = twiml [Say_alice ''Thank you for calling! Have a great day. Goodbye!'', Hangup]"
    by (simp add: case_prod_beta t)
  with h1 h2 h3 show ?thesis by blast
qed

section \<open>Turn handlers at particular inputs\<close>

lemma thats_all_not_jambonz_phrase:
  "\<not> list_ex (\<lambda>phrase. str_in phrase (lower ''that's all'')) jambonz_goodbye_phrases"
  by (simp add: jambonz_goodbye_phrases_def lower_def lower_char_def)

text \<open>
  Claim C1. The utterance \<^verbatim>\<open>that's all\<close> contains a closing phrase of the
  specification, yet \<^verbatim>\<open>jambonz_gather\<close> treats it as an ordinary turn: it calls the
  Respond client with it and answers with a reply followed by a new gather. The list
  of \<^verbatim>\<open>jambonz_gather\<close> has four phrases, the list of \<^verbatim>\<open>twilio_gather\<close> five.
\<close>

theorem jambonz_thats_all_regathers:
  "spec_closing ''that's all'' \<and>
   jambonz_gather cfg e (jambonz_payload (JStr ''that's all'')) w =
     (let (ai_response, w1) = call_llm cfg e ''that's all'' w;
          (audio_url, w2) = call_tts cfg e ai_response ''en'' w1
      in Inr (JArr [if_url audio_url verb_play (verb_say ai_response),
                    verb_gather cfg, verb_hangup],
              w2))"
proof -
  have "spec_closing ''that's all''"
    by (simp add: spec_closing_def lower_def lower_char_def)
  moreover have "jambonz_gather cfg e (jambonz_payload (JStr ''that's all'')) w =
     (let (ai_response, w1) = call_llm cfg e ''that's all'' w;
          (audio_url, w2) = call_tts cfg e ai_response ''en'' w1
      in Inr (JArr [if_url audio_url verb_play (verb_say ai_response),
                    verb_gather cfg, verb_hangup],
              w2))"
    using thats_all_not_jambonz_phrase
    by (simp add: jambonz_gather_def jambonz_speech_text_payload and_then_def jambonz_turn_def
          split: prod.splits)
  ultimately show ?thesis by blast
qed

text \<open>
  Claim C2. A Jambonz turn payload whose \<^verbatim>\<open>alternatives\<close> list is present and empty
  makes \<^verbatim>\<open>jambonz_gather\<close> raise \<^verbatim>\<open>IndexError\<close> at \<^verbatim>\<open>[0]\<close>: the default
  \<^verbatim>\<open>[{}]\<close> only stands in for a missing key. No document is returned.
\<close>

theorem jambonz_gather_empty_alternatives_raises:
  "jambonz_gather cfg e (JObj [(''speech'', JObj [(''alternatives'', JArr [])])]) w = Inl IndexError"
  by (simp add: jambonz_gather_def jambonz_speech_text_def and_then_def)

text \<open>
  Claim C7. A Langflow response with status 200 whose JSON body is the empty object
  holds no text at the path; \<^verbatim>\<open>call_langflow\<close> returns the empty string as the reply,
  not a fallback utterance: the missing key \<^verbatim>\<open>outputs\<close> defaults to \<^verbatim>\<open>[{}]\<close>, which
  is truthy, and the missing \<^verbatim>\<open>text\<close> defaults to \<^verbatim>\<open>""\<close>.
\<close>

theorem call_langflow_empty_object_gives_empty_text:
  "fst (call_langflow cfg
          (e\<lparr>post := \<lambda>req. Returns \<lparr>status_code = 200, content = bytes, json_body = Some (JObj [])\<rparr>\<rparr>)
          message w) = JStr []"
  by (simp add: call_langflow_def send_def langflow_reply_def raise_for_status_def
        langflow_text_def and_then_def)

text \<open>
  Claim C6. No artifact is stored under the name \<^verbatim>\<open>..\<close>, but the path
  \<^verbatim>\<open>AUDIO_DIR / ".."\<close> exists, so \<^verbatim>\<open>serve_audio\<close> takes the \<^verbatim>\<open>send_file\<close> branch,
  which fails on a directory: the request ends in an unhandled exception, not in the
  404 answer.
\<close>

theorem serve_audio_dotdot_raises: "serve_audio w ''..'' = Inl IsADirectoryError"
  by (simp add: serve_audio_def path_entry_def)


text \<open>
  Claim C3. With Langflow configured, a Langflow answer with status 200 whose JSON
  body is the empty object is a payload from which no reply can be read, yet nothing
  raises inside \<^verbatim>\<open>call_langflow\<close>, so the \<^verbatim>\<open>except\<close> branch with the apology is not
  taken: \<^verbatim>\<open>call_llm\<close> returns the empty string, and with synthesis unavailable both
  turn handlers speak the empty text and gather again.
\<close>

theorem langflow_unparsed_body_not_apology:
  "\<not> spec_closing ''hello''
   \<and> \<not> respond_raises example_langflow_config (ok_json (JObj []))
   \<and> fst (call_llm example_langflow_config
            (example_env (ok_json (JObj [])) (Raises Timeout)) ''hello'' empty_world) = JStr []
   \<and> respond_error_text example_langflow_config
       = ''I'm having trouble with my AI workflow. Please try again.''
   \<and> fst (twilio_gather example_langflow_config
            (example_env (ok_json (JObj [])) (Raises Timeout))
            [(''SpeechResult'', ''hello'')] empty_world)
       = twiml [Say_alice [], Gather example_langflow_config,
                Say ''Are you still there?'', Hangup]
   \<and> map_sum id fst
        (jambonz_gather example_langflow_config
           (example_env (ok_json (JObj [])) (Raises Timeout))
           (jambonz_payload (JStr ''hello'')) empty_world)
       = Inr (JArr [verb_say (JStr []), verb_gather example_langflow_config, verb_hangup])"
proof -
  let ?e = "example_env (ok_json (JObj [])) (Raises Timeout)"
  have a: "\<not> respond_raises example_langflow_config (ok_json (JObj []))"
    by (simp add: respond_raises_def langflow_text_def and_then_def example_simps)
  have b: "fst (call_llm example_langflow_config ?e ''hello'' empty_world) = JStr []"
    by (simp add: langflow_text_def and_then_def example_simps)
  have c: "respond_error_text example_langflow_config
       = ''I'm having trouble with my AI workflow. Please try again.''"
    by (simp add: respond_error_text_def langflow_error_text_def example_simps)
  have d: "fst (twilio_gather example_langflow_config ?e [(''SpeechResult'', ''hello'')]
                  empty_world)
       = twiml [Say_alice [], Gather example_langflow_config,
                Say ''Are you still there?'', Hangup]"
    using hello_not_closing
    by (simp add: twilio_gather_def form_get_def twilio_phrases_closing if_url_def fstring_def
          langflow_text_def and_then_def example_simps)
  have f: "map_sum id fst
        (jambonz_gather example_langflow_config ?e (jambonz_payload (JStr ''hello'')) empty_world)
       = Inr (JArr [verb_say (JStr []), verb_gather example_langflow_config, verb_hangup])"
    using hello_not_jambonz_closing
    by (simp add: jambonz_gather_def jambonz_speech_text_payload and_then_def jambonz_turn_def
          jambonz_closing_def if_url_def langflow_text_def example_simps)
  from hello_not_closing a b c d f show ?thesis by blast
qed
end
